theory Spec2Isabelle
  imports Main
begin

section \<open>JavaScript values\<close>

text \<open>
  A property of a JavaScript object is absent (\<open>undefined\<close>), \<open>null\<close>, or holds a value.
  The fields below follow the declared type of \<open>Credentials\<close>: the two tokens are
  \<open>string | null | undefined\<close>, the expiry is \<open>number | null | undefined\<close>.
  Timestamps are whole milliseconds, as \<open>Date.now()\<close> returns them, and are taken as
  unbounded integers: below \<open>2^53\<close> the arithmetic of the source is exact.
\<close>

datatype 'a field = Undefined | Null | Val 'a

text \<open>Truthiness as \<open>if (x)\<close>, \<open>!x\<close> and \<open>x ? a : b\<close> decide it.\<close>

definition truthy_str :: "string field \<Rightarrow> bool" where
  "truthy_str f = (case f of Val s \<Rightarrow> s \<noteq> [] | Null \<Rightarrow> False | Undefined \<Rightarrow> False)"

definition truthy_num :: "int field \<Rightarrow> bool" where
  "truthy_num f = (case f of Val n \<Rightarrow> n \<noteq> 0 | Null \<Rightarrow> False | Undefined \<Rightarrow> False)"

text \<open>The operator \<open>a ?? b\<close>: \<open>b\<close> only where \<open>a\<close> is \<open>null\<close> or \<open>undefined\<close>.\<close>

definition nullish :: "'a option \<Rightarrow> 'a \<Rightarrow> 'a" where
  "nullish a b = (case a of Some v \<Rightarrow> v | None \<Rightarrow> b)"

text \<open>A number printed by string concatenation (\<open>'' + n\<close>), for whole numbers.\<close>

fun show_nat :: "nat \<Rightarrow> string" where
  "show_nat n =
     (if n < 10 then [''0123456789'' ! n]
      else show_nat (n div 10) @ [''0123456789'' ! (n mod 10)])"

declare show_nat.simps [simp del]

definition show_int :: "int \<Rightarrow> string" where
  "show_int i = (if i < 0 then CHR ''-'' # show_nat (nat (- i)) else show_nat (nat i))"

section \<open>Data model\<close>

record credentials =
  access_token :: "string field"
  expiry_date :: "int field"
  refresh_token :: "string field"

text \<open>
  What a file holds, as \<open>JSON.parse\<close> sees it: text that does not parse, a client-secret
  document \<open>{web: {client_id, client_secret, redirect_uris}}\<close>, or a credentials document.
  \<open>JSON.stringify\<close> leaves out the properties that are \<open>undefined\<close> and \<open>JSON.parse\<close>
  reads a property that is left out as \<open>undefined\<close>, so a written document is read back
  as it was. Of a token set only the three fields that the manager reads are kept; the
  others that the library returns (\<open>token_type\<close>, \<open>scope\<close>, \<open>id_token\<close>) are written by
  \<open>login\<close> and never read. A credentials document gives \<open>undefined\<close> for \<open>web\<close> and a
  client-secret document gives \<open>undefined\<close> for the three fields.
\<close>

datatype content =
    Malformed
  | SecretDoc string string "string list"
  | CredentialsDoc credentials

text \<open>The file system (regular files and directories, by path) and \<open>process.env\<close>.\<close>

record world =
  files :: "string \<rightharpoonup> content"
  dirs :: "string set"
  env :: "string \<rightharpoonup> string"

datatype error =
    ENOENT string
  | EISDIR string
  | SyntaxError
  | TypeError
  | Error string
  | Upstream string

text \<open>The \<open>OAuth2Client\<close> of the library, as far as the manager touches it.\<close>

record auth_client =
  client_id :: string
  client_secret :: string
  redirect_uri :: "string field"
  client_credentials :: credentials

definition setCredentials :: "auth_client \<Rightarrow> credentials \<Rightarrow> auth_client" where
  "setCredentials authClient c = authClient\<lparr>client_credentials := c\<rparr>"

text \<open>\<open>authStateFile?: string | false\<close>.\<close>

datatype auth_state = Path string | Disabled

record options =
  opt_scopes :: "string list"
  opt_clientSecretFile :: "string option"
  opt_authStateFile :: "auth_state option"
  opt_defaultRefreshToken :: "string option"
  opt_log :: "(string \<Rightarrow> string) option"

text \<open>
  The class \<open>GoogleOfflineAccess\<close>. A log function is modelled by the line it emits for
  a message.
\<close>

record manager =
  scopes :: "string list"
  clientSecretFile :: string
  authStateFile :: auth_state
  defaultRefreshToken :: "string option"
  log :: "string \<Rightarrow> string"

text \<open>What a call does to the outside, in order.\<close>

datatype event =
    ReadClientSecret string
  | StoreExists string
  | StoreRead string
  | StoreMkdir string
  | StoreWrite string credentials
  | Log string
  | RefreshAccessToken credentials
  | GetToken string

record 'a outcome =
  result :: "error + 'a"
  after :: world
  trace :: "event list"

section \<open>File system\<close>

text \<open>\<open>path.dirname\<close> of Node.js, POSIX flavour.\<close>

definition dirname :: "string \<Rightarrow> string" where
  "dirname p =
     (if p = [] then ''.''
      else
        let hasRoot = (hd p = CHR ''/'');
            r = dropWhile (\<lambda>c. c \<noteq> CHR ''/'') (dropWhile (\<lambda>c. c = CHR ''/'') (rev (tl p)));
            end = length r
        in if r = [] then (if hasRoot then ''/'' else ''.'')
           else if hasRoot \<and> end = 1 then ''//''
           else take end p)"

text \<open>\<open>fs.mkdirSync(d, {recursive: true})\<close>: the directory and its ancestors exist afterwards.\<close>

fun ancestors :: "nat \<Rightarrow> string \<Rightarrow> string list" where
  "ancestors 0 d = [d]"
| "ancestors (Suc k) d = d # ancestors k (dirname d)"

definition mkdirSync :: "string \<Rightarrow> world \<Rightarrow> world" where
  "mkdirSync d w = w\<lparr>dirs := dirs w \<union> set (ancestors (length d) d)\<rparr>"

text \<open>\<open>fs.writeFileSync\<close> creates or replaces the file, and fails where its directory is missing.\<close>

definition writeFileSync :: "string \<Rightarrow> content \<Rightarrow> world \<Rightarrow> error + world" where
  "writeFileSync p c w =
     (if dirname p \<in> dirs w then Inr (w\<lparr>files := (files w)(p \<mapsto> c)\<rparr>)
      else Inl (ENOENT p))"

text \<open>\<open>fs.existsSync\<close> is true of a regular file and of a directory.\<close>

definition existsSync :: "world \<Rightarrow> string \<Rightarrow> bool" where
  "existsSync w p = (files w p \<noteq> None \<or> p \<in> dirs w)"

text \<open>\<open>fs.readFileSync\<close> fails on a directory and on a path where nothing is.\<close>

definition readFileSync :: "world \<Rightarrow> string \<Rightarrow> error + content" where
  "readFileSync w p =
     (case files w p of
        Some c \<Rightarrow> Inr c
      | None \<Rightarrow> (if p \<in> dirs w then Inl (EISDIR p) else Inl (ENOENT p)))"

section \<open>The manager\<close>

definition default_log :: "string \<Rightarrow> string" where
  "default_log text = ''[GoogleOfflineAccess] '' @ text"

definition new_GoogleOfflineAccess :: "options \<Rightarrow> world \<Rightarrow> manager" where
  "new_GoogleOfflineAccess opts w =
     \<lparr> scopes = opt_scopes opts,
       clientSecretFile =
         nullish (opt_clientSecretFile opts)
           (nullish (env w ''GOOGLE_CLIENT_SECRET_FILE'') ''.data/google_client_secret.json''),
       authStateFile =
         nullish (opt_authStateFile opts)
           (Path (nullish (env w ''GOOGLE_AUTH_STATE_FILE'') ''.data/google_auth.json'')),
       defaultRefreshToken =
         (case opt_defaultRefreshToken opts of
            Some t \<Rightarrow> Some t
          | None \<Rightarrow> env w ''GOOGLE_REFRESH_TOKEN''),
       log = nullish (opt_log opts) default_log \<rparr>"

definition createAuthClient :: "manager \<Rightarrow> world \<Rightarrow> error + auth_client" where
  "createAuthClient m w =
     (case readFileSync w (clientSecretFile m) of
        Inl e \<Rightarrow> Inl e
      | Inr Malformed \<Rightarrow> Inl SyntaxError
      | Inr (CredentialsDoc c) \<Rightarrow> Inl TypeError
      | Inr (SecretDoc cid secret uris) \<Rightarrow>
          Inr \<lparr> client_id = cid, client_secret = secret,
                redirect_uri = (case uris of [] \<Rightarrow> Undefined | u # us \<Rightarrow> Val u),
                client_credentials =
                  \<lparr> access_token = Undefined, expiry_date = Undefined,
                    refresh_token = Undefined \<rparr> \<rparr>)"

text \<open>The path of the store where \<open>this.authStateFile\<close> is truthy.\<close>

definition store_path :: "manager \<Rightarrow> string option" where
  "store_path m =
     (case authStateFile m of
        Path p \<Rightarrow> (if p = [] then None else Some p)
      | Disabled \<Rightarrow> None)"

text \<open>Lines 111 to 114: the empty credential set, seeded with the default refresh token.\<close>

definition seed_credentials :: "manager \<Rightarrow> credentials" where
  "seed_credentials m =
     \<lparr> access_token = Undefined, expiry_date = Undefined,
       refresh_token =
         (case defaultRefreshToken m of
            Some t \<Rightarrow> (if t = [] then Undefined else Val t)
          | None \<Rightarrow> Undefined) \<rparr>"

text \<open>Lines 115 to 120: the three fields are assigned from the stored document.\<close>

definition read_store :: "manager \<Rightarrow> world \<Rightarrow> credentials \<Rightarrow> error + credentials" where
  "read_store m w c =
     (case store_path m of
        None \<Rightarrow> Inr c
      | Some p \<Rightarrow>
          (if existsSync w p
           then
             (case readFileSync w p of
                Inl e \<Rightarrow> Inl e
              | Inr Malformed \<Rightarrow> Inl SyntaxError
              | Inr (SecretDoc cid secret uris) \<Rightarrow>
                  Inr (c\<lparr>access_token := Undefined, expiry_date := Undefined,
                         refresh_token := Undefined\<rparr>)
              | Inr (CredentialsDoc token) \<Rightarrow>
                  Inr (c\<lparr>access_token := access_token token,
                         expiry_date := expiry_date token,
                         refresh_token := refresh_token token\<rparr>))
           else Inr c))"

definition read_store_events :: "manager \<Rightarrow> world \<Rightarrow> event list" where
  "read_store_events m w =
     (case store_path m of
        None \<Rightarrow> []
      | Some p \<Rightarrow> StoreExists p # (if existsSync w p then [StoreRead p] else []))"

text \<open>
  What a call of \<open>getAuthenticatedAuthClient\<close> takes from outside: the two readings of
  \<open>Date.now()\<close> (line 123 and line 152) and the answer of \<open>refreshAccessToken()\<close> for the
  client it is called on.
\<close>

record external =
  now_check :: int
  now_report :: int
  refreshAccessToken :: "auth_client \<Rightarrow> error + credentials"

text \<open>Lines 121 to 124.\<close>

definition needs_refresh :: "int \<Rightarrow> credentials \<Rightarrow> bool" where
  "needs_refresh now c =
     (case expiry_date c of
        Val e \<Rightarrow> e = 0 \<or> now + 300000 > e
      | Null \<Rightarrow> True
      | Undefined \<Rightarrow> True)"

definition no_refresh_token_message :: string where
  "no_refresh_token_message =
     ''No refresh token found. Please provide one via the GOOGLE_REFRESH_TOKEN environment variable.''"

text \<open>Lines 125 to 148.\<close>

definition refresh_branch ::
  "manager \<Rightarrow> external \<Rightarrow> world \<Rightarrow> auth_client \<Rightarrow> credentials \<Rightarrow> auth_client outcome" where
  "refresh_branch m x w authClient c =
     (let said = [Log (log m (if truthy_num (expiry_date c)
                              then ''Token expired, renewing...''
                              else ''No token found, getting new one...''))]
      in if \<not> truthy_str (refresh_token c)
         then \<lparr> result = Inl (Error no_refresh_token_message), after = w, trace = said \<rparr>
         else
           (case refreshAccessToken x (setCredentials authClient c) of
              Inl e \<Rightarrow>
                \<lparr> result = Inl e, after = w, trace = said @ [RefreshAccessToken c] \<rparr>
            | Inr response \<Rightarrow>
                (let newCredentials =
                       c\<lparr>access_token := access_token response,
                         expiry_date := expiry_date response\<rparr>
                 in case store_path m of
                      None \<Rightarrow>
                        \<lparr> result = Inr (setCredentials authClient newCredentials),
                          after = w,
                          trace = said @ [RefreshAccessToken c] \<rparr>
                    | Some p \<Rightarrow>
                        (case writeFileSync p (CredentialsDoc newCredentials) w of
                           Inl e \<Rightarrow>
                             \<lparr> result = Inl e, after = w,
                               trace = said @ [RefreshAccessToken c, StoreWrite p newCredentials] \<rparr>
                         | Inr w' \<Rightarrow>
                             \<lparr> result = Inr (setCredentials authClient newCredentials),
                               after = w',
                               trace = said @ [RefreshAccessToken c, StoreWrite p newCredentials] \<rparr>))))"

text \<open>
  Lines 149 to 156.
  \<open>Math.floor((credentials.expiry_date - Date.now()) / 60e3)\<close> joined into the message.
  Only a number reaches this branch; for the record, \<open>null\<close> counts as \<open>0\<close> in the
  subtraction and \<open>undefined\<close> gives \<open>NaN\<close>.
\<close>

definition still_valid_message :: "int \<Rightarrow> int field \<Rightarrow> string" where
  "still_valid_message now expiry =
     ''Token is still valid for ''
       @ (case expiry of
            Val e \<Rightarrow> show_int ((e - now) div 60000)
          | Null \<Rightarrow> show_int ((0 - now) div 60000)
          | Undefined \<Rightarrow> ''NaN'')
       @ '' minutes''"

definition reuse_branch ::
  "manager \<Rightarrow> external \<Rightarrow> world \<Rightarrow> auth_client \<Rightarrow> credentials \<Rightarrow> auth_client outcome" where
  "reuse_branch m x w authClient c =
     \<lparr> result = Inr (setCredentials authClient c), after = w,
       trace = [Log (log m (still_valid_message (now_report x) (expiry_date c)))] \<rparr>"

definition getAuthenticatedAuthClient ::
  "manager \<Rightarrow> external \<Rightarrow> world \<Rightarrow> auth_client outcome" where
  "getAuthenticatedAuthClient m x w =
     (case createAuthClient m w of
        Inl e \<Rightarrow>
          \<lparr> result = Inl e, after = w, trace = [ReadClientSecret (clientSecretFile m)] \<rparr>
      | Inr authClient \<Rightarrow>
          (case read_store m w (seed_credentials m) of
             Inl e \<Rightarrow>
               \<lparr> result = Inl e, after = w,
                 trace = ReadClientSecret (clientSecretFile m) # read_store_events m w \<rparr>
           | Inr c \<Rightarrow>
               (let r = (if needs_refresh (now_check x) c
                         then refresh_branch m x w authClient c
                         else reuse_branch m x w authClient c)
                in r\<lparr>trace := ReadClientSecret (clientSecretFile m) # read_store_events m w @ trace r\<rparr>)))"

text \<open>Lines 186 to 194; \<open>getToken\<close> is the answer of the library for the code.\<close>

definition login ::
  "manager \<Rightarrow> (auth_client \<Rightarrow> string \<Rightarrow> error + credentials) \<Rightarrow> string \<Rightarrow> world \<Rightarrow> unit outcome" where
  "login m getToken code w =
     (case createAuthClient m w of
        Inl e \<Rightarrow>
          \<lparr> result = Inl e, after = w, trace = [ReadClientSecret (clientSecretFile m)] \<rparr>
      | Inr authClient \<Rightarrow>
          (case getToken authClient code of
             Inl e \<Rightarrow>
               \<lparr> result = Inl e, after = w,
                 trace = [ReadClientSecret (clientSecretFile m), GetToken code] \<rparr>
           | Inr tokens \<Rightarrow>
               (case store_path m of
                  None \<Rightarrow>
                    \<lparr> result = Inr (), after = w,
                      trace = [ReadClientSecret (clientSecretFile m), GetToken code] \<rparr>
                | Some p \<Rightarrow>
                    (let w1 = mkdirSync (dirname p) w;
                         tr = [ReadClientSecret (clientSecretFile m), GetToken code,
                               StoreMkdir (dirname p), StoreWrite p tokens]
                     in case writeFileSync p (CredentialsDoc tokens) w1 of
                          Inl e \<Rightarrow> \<lparr> result = Inl e, after = w1, trace = tr \<rparr>
                        | Inr w2 \<Rightarrow> \<lparr> result = Inr (), after = w2, trace = tr \<rparr>))))"

section \<open>Sequences of calls\<close>

datatype call =
    Login "auth_client \<Rightarrow> string \<Rightarrow> error + credentials" string
  | GetAuthenticatedAuthClient external

text \<open>
  A caller that goes on after a failed call: each call starts in the world the call
  before it left. The result is the last world and everything done on the way.
\<close>

fun run :: "manager \<Rightarrow> call list \<Rightarrow> world \<Rightarrow> world \<times> event list" where
  "run m [] w = (w, [])"
| "run m (Login getToken code # cs) w =
     (let r = login m getToken code w;
          (w', tr) = run m cs (after r)
      in (w', trace r @ tr))"
| "run m (GetAuthenticatedAuthClient x # cs) w =
     (let r = getAuthenticatedAuthClient m x w;
          (w', tr) = run m cs (after r)
      in (w', trace r @ tr))"

section \<open>Observations on a trace\<close>

fun is_refresh :: "event \<Rightarrow> bool" where
  "is_refresh (RefreshAccessToken c) = True"
| "is_refresh e = False"

fun is_store_write :: "event \<Rightarrow> bool" where
  "is_store_write (StoreWrite p c) = True"
| "is_store_write e = False"

fun is_store_read :: "event \<Rightarrow> bool" where
  "is_store_read (StoreRead p) = True"
| "is_store_read e = False"

fun is_store_event :: "event \<Rightarrow> bool" where
  "is_store_event (StoreExists p) = True"
| "is_store_event (StoreRead p) = True"
| "is_store_event (StoreMkdir p) = True"
| "is_store_event (StoreWrite p c) = True"
| "is_store_event e = False"

definition refresh_calls :: "event list \<Rightarrow> nat" where
  "refresh_calls tr = length (filter is_refresh tr)"

definition store_writes :: "event list \<Rightarrow> nat" where
  "store_writes tr = length (filter is_store_write tr)"

definition store_reads :: "event list \<Rightarrow> nat" where
  "store_reads tr = length (filter is_store_read tr)"

definition log_lines :: "event list \<Rightarrow> string list" where
  "log_lines tr = concat (map (\<lambda>e. case e of Log s \<Rightarrow> [s] | _ \<Rightarrow> []) tr)"

text \<open>The refresh token of the stored document, where the store holds a credentials document.\<close>

definition stored_refresh_token :: "manager \<Rightarrow> world \<Rightarrow> string field option" where
  "stored_refresh_token m w =
     (case store_path m of
        None \<Rightarrow> None
      | Some p \<Rightarrow>
          (case files w p of
             Some (CredentialsDoc t) \<Rightarrow> Some (refresh_token t)
           | Some (SecretDoc cid secret uris) \<Rightarrow> None
           | Some Malformed \<Rightarrow> None
           | None \<Rightarrow> None))"

text \<open>
  A call that cannot replace the stored refresh token \<open>f\<close> by another: any
  \<open>getAuthenticatedAuthClient\<close>, and a \<open>login\<close> whose exchange fails or answers with \<open>f\<close>.
\<close>

fun keeps :: "string field \<Rightarrow> call \<Rightarrow> bool" where
  "keeps f (GetAuthenticatedAuthClient x) = True"
| "keeps f (Login getToken code) =
     (\<forall>authClient. case getToken authClient code of
                      Inl e \<Rightarrow> True
                    | Inr tokens \<Rightarrow> refresh_token tokens = f)"

text \<open>
  The resolver as the specification words it: the explicit value, else the environment
  lookup, else the built-in default (where there is one).
\<close>

definition layered :: "'a option \<Rightarrow> 'a option \<Rightarrow> 'a option \<Rightarrow> 'a option" where
  "layered explicit environment builtin =
     (case explicit of
        Some v \<Rightarrow> Some v
      | None \<Rightarrow> (case environment of Some v \<Rightarrow> Some v | None \<Rightarrow> builtin))"

section \<open>Concrete managers and worlds\<close>

definition ex_secret :: content where
  "ex_secret = SecretDoc ''id'' ''secret'' [''http://localhost'']"

definition ex_client :: auth_client where
  "ex_client =
     \<lparr> client_id = ''id'', client_secret = ''secret'', redirect_uri = Val ''http://localhost'',
       client_credentials =
         \<lparr> access_token = Undefined, expiry_date = Undefined, refresh_token = Undefined \<rparr> \<rparr>"

definition ex_stored :: credentials where
  "ex_stored =
     \<lparr> access_token = Val ''AT0'', expiry_date = Val 1000000, refresh_token = Val ''RT0'' \<rparr>"

text \<open>A client secret and a cached token that expires at 1000000, no environment variable.\<close>

definition ex_world :: world where
  "ex_world =
     \<lparr> files = [''.data/google_client_secret.json'' \<mapsto> ex_secret,
                ''.data/google_auth.json'' \<mapsto> CredentialsDoc ex_stored],
       dirs = {''.'', ''.data''},
       env = Map.empty \<rparr>"

text \<open>The same without the cached token.\<close>

definition empty_world :: world where
  "empty_world =
     \<lparr> files = [''.data/google_client_secret.json'' \<mapsto> ex_secret],
       dirs = {''.'', ''.data''},
       env = Map.empty \<rparr>"

text \<open>A directory stands where the store file would be.\<close>

definition dir_store_world :: world where
  "dir_store_world =
     \<lparr> files = [''.data/google_client_secret.json'' \<mapsto> ex_secret],
       dirs = {''.'', ''.data'', ''.data/google_auth.json''},
       env = Map.empty \<rparr>"

text \<open>Nothing at all: the client secret is missing too.\<close>

definition bare_world :: world where
  "bare_world = \<lparr> files = Map.empty, dirs = {''.''}, env = Map.empty \<rparr>"

text \<open>The cached document lacks the refresh token, as a login can leave it.\<close>

definition no_refresh_stored :: credentials where
  "no_refresh_stored =
     \<lparr> access_token = Val ''AT0'', expiry_date = Val 1000000, refresh_token = Undefined \<rparr>"

definition no_refresh_world :: world where
  "no_refresh_world =
     ex_world\<lparr>files := (files ex_world)(''.data/google_auth.json'' \<mapsto> CredentialsDoc no_refresh_stored)\<rparr>"

text \<open>The cached document records the expiry 0.\<close>

definition zero_expiry_stored :: credentials where
  "zero_expiry_stored =
     \<lparr> access_token = Val ''AT0'', expiry_date = Val 0, refresh_token = Val ''RT0'' \<rparr>"

definition zero_expiry_world :: world where
  "zero_expiry_world =
     ex_world\<lparr>files := (files ex_world)(''.data/google_auth.json'' \<mapsto> CredentialsDoc zero_expiry_stored)\<rparr>"

definition env_world :: world where
  "env_world =
     ex_world\<lparr>env := [''GOOGLE_CLIENT_SECRET_FILE'' \<mapsto> ''env_secret.json'',
                       ''GOOGLE_AUTH_STATE_FILE'' \<mapsto> ''env_auth.json'',
                       ''GOOGLE_REFRESH_TOKEN'' \<mapsto> ''RT_ENV'']\<rparr>"

definition ex_options :: options where
  "ex_options =
     \<lparr> opt_scopes = [''scope''], opt_clientSecretFile = None, opt_authStateFile = None,
       opt_defaultRefreshToken = None, opt_log = None \<rparr>"

definition explicit_options :: options where
  "explicit_options =
     \<lparr> opt_scopes = [''scope''], opt_clientSecretFile = Some ''secret.json'',
       opt_authStateFile = Some Disabled, opt_defaultRefreshToken = Some ''RT9'',
       opt_log = Some (\<lambda>text. text) \<rparr>"

definition ex_manager :: manager where
  "ex_manager = new_GoogleOfflineAccess ex_options ex_world"

definition ci_manager :: manager where
  "ci_manager = ex_manager\<lparr>defaultRefreshToken := Some ''RT1''\<rparr>"

definition cache_manager :: manager where
  "cache_manager = ci_manager\<lparr>authStateFile := Path ''cache/google_auth.json''\<rparr>"

definition disabled_manager :: manager where
  "disabled_manager = ci_manager\<lparr>authStateFile := Disabled\<rparr>"

definition ex_response :: credentials where
  "ex_response =
     \<lparr> access_token = Val ''AT1'', expiry_date = Val 4600000, refresh_token = Undefined \<rparr>"

definition ex_merged :: credentials where
  "ex_merged =
     \<lparr> access_token = Val ''AT1'', expiry_date = Val 4600000, refresh_token = Val ''RT0'' \<rparr>"

text \<open>Both clock readings are \<open>t\<close>; every refresh answers with \<open>ex_response\<close>.\<close>

definition ex_external :: "int \<Rightarrow> external" where
  "ex_external t =
     \<lparr> now_check = t, now_report = t, refreshAccessToken = (\<lambda>authClient. Inr ex_response) \<rparr>"

text \<open>An exchange that grants no refresh token, and one that grants \<open>RT0\<close> again.\<close>

definition getToken_without_refresh :: "auth_client \<Rightarrow> string \<Rightarrow> error + credentials" where
  "getToken_without_refresh authClient code = Inr ex_response"

definition getToken_same_refresh :: "auth_client \<Rightarrow> string \<Rightarrow> error + credentials" where
  "getToken_same_refresh authClient code = Inr ex_merged"

section \<open>Counting events\<close>

lemma refresh_calls_simps [simp]:
  "refresh_calls [] = 0"
  "refresh_calls (e # tr) = (if is_refresh e then 1 else 0) + refresh_calls tr"
  "refresh_calls (tr @ tr') = refresh_calls tr + refresh_calls tr'"
  by (simp_all add: refresh_calls_def)

lemma store_writes_simps [simp]:
  "store_writes [] = 0"
  "store_writes (e # tr) = (if is_store_write e then 1 else 0) + store_writes tr"
  "store_writes (tr @ tr') = store_writes tr + store_writes tr'"
  by (simp_all add: store_writes_def)

lemma store_reads_simps [simp]:
  "store_reads [] = 0"
  "store_reads (e # tr) = (if is_store_read e then 1 else 0) + store_reads tr"
  "store_reads (tr @ tr') = store_reads tr + store_reads tr'"
  by (simp_all add: store_reads_def)

lemma log_lines_simps [simp]:
  "log_lines [] = []"
  "log_lines (e # tr) = (case e of Log s \<Rightarrow> [s] | _ \<Rightarrow> []) @ log_lines tr"
  "log_lines (tr @ tr') = log_lines tr @ log_lines tr'"
  by (simp_all add: log_lines_def)

lemma read_store_events_quiet [simp]:
  "refresh_calls (read_store_events m w) = 0"
  "store_writes (read_store_events m w) = 0"
  "log_lines (read_store_events m w) = []"
  by (simp_all add: read_store_events_def split: option.splits)

lemma read_store_events_reads:
  "store_reads (read_store_events m w)
     = (if (\<exists>p. store_path m = Some p \<and> existsSync w p) then 1 else 0)"
  by (simp add: read_store_events_def split: option.splits)

section \<open>The concrete managers and worlds, evaluated\<close>

lemma ex_manager_fields:
  "clientSecretFile ex_manager = ''.data/google_client_secret.json''"
  "authStateFile ex_manager = Path ''.data/google_auth.json''"
  "defaultRefreshToken ex_manager = None"
  "log ex_manager = default_log"
  "store_path ex_manager = Some ''.data/google_auth.json''"
  by (simp_all add: ex_manager_def new_GoogleOfflineAccess_def ex_options_def ex_world_def
      nullish_def store_path_def)

lemma ci_manager_fields:
  "clientSecretFile ci_manager = ''.data/google_client_secret.json''"
  "authStateFile ci_manager = Path ''.data/google_auth.json''"
  "defaultRefreshToken ci_manager = Some ''RT1''"
  "log ci_manager = default_log"
  "store_path ci_manager = Some ''.data/google_auth.json''"
  by (simp_all add: ci_manager_def ex_manager_fields store_path_def)

lemma cache_manager_fields:
  "clientSecretFile cache_manager = ''.data/google_client_secret.json''"
  "authStateFile cache_manager = Path ''cache/google_auth.json''"
  "defaultRefreshToken cache_manager = Some ''RT1''"
  "log cache_manager = default_log"
  "store_path cache_manager = Some ''cache/google_auth.json''"
  by (simp_all add: cache_manager_def ci_manager_fields store_path_def)

lemma disabled_manager_fields:
  "clientSecretFile disabled_manager = ''.data/google_client_secret.json''"
  "authStateFile disabled_manager = Disabled"
  "defaultRefreshToken disabled_manager = Some ''RT1''"
  "log disabled_manager = default_log"
  "store_path disabled_manager = None"
  by (simp_all add: disabled_manager_def ci_manager_fields store_path_def)

lemma world_secrets:
  "files ex_world ''.data/google_client_secret.json'' = Some ex_secret"
  "files empty_world ''.data/google_client_secret.json'' = Some ex_secret"
  "files no_refresh_world ''.data/google_client_secret.json'' = Some ex_secret"
  "files zero_expiry_world ''.data/google_client_secret.json'' = Some ex_secret"
  by (simp_all add: ex_world_def empty_world_def no_refresh_world_def zero_expiry_world_def)

lemma world_stores:
  "files ex_world ''.data/google_auth.json'' = Some (CredentialsDoc ex_stored)"
  "files empty_world ''.data/google_auth.json'' = None"
  "files empty_world ''cache/google_auth.json'' = None"
  "files no_refresh_world ''.data/google_auth.json'' = Some (CredentialsDoc no_refresh_stored)"
  "files zero_expiry_world ''.data/google_auth.json'' = Some (CredentialsDoc zero_expiry_stored)"
  by (simp_all add: ex_world_def empty_world_def no_refresh_world_def zero_expiry_world_def)

lemma world_dirs:
  "dirs ex_world = {''.'', ''.data''}"
  "dirs empty_world = {''.'', ''.data''}"
  by (simp_all add: ex_world_def empty_world_def)

lemma secret_to_client:
  "files w (clientSecretFile m) = Some ex_secret \<Longrightarrow> createAuthClient m w = Inr ex_client"
  by (simp add: createAuthClient_def readFileSync_def ex_secret_def ex_client_def)

lemma ex_createAuthClient: "createAuthClient ex_manager ex_world = Inr ex_client"
  by (simp add: secret_to_client ex_manager_fields world_secrets)

lemma ex_read_store: "read_store ex_manager ex_world (seed_credentials ex_manager) = Inr ex_stored"
  by (simp add: read_store_def existsSync_def readFileSync_def ex_manager_fields world_stores seed_credentials_def ex_stored_def)

lemma dirname_examples:
  "dirname ''.data/google_auth.json'' = ''.data''"
  "dirname ''cache/google_auth.json'' = ''cache''"
  by (simp_all add: dirname_def)

section \<open>Freshness\<close>

text \<open>
  C1, as the code has it. Once the client secret and the store are read, the cached access
  token is reused, with no refresh call, no store write, the file system untouched and
  the cached values installed on the client, exactly when \<open>expiry_date\<close> is a number
  other than 0 and the current time plus 300000 ms is at most \<open>expiry_date\<close>: the boundary
  where the two are equal reuses. In every other case one refresh call is made where the
  credential set holds a non-empty refresh token, and none where it does not: then the
  call fails with the missing-refresh-token error.
\<close>

theorem C1_freshness:
  assumes "createAuthClient m w = Inr authClient"
    and "read_store m w (seed_credentials m) = Inr c"
  shows
    "((\<exists>e. expiry_date c = Val e \<and> e \<noteq> 0 \<and> now_check x + 300000 \<le> e) \<longrightarrow>
        refresh_calls (trace (getAuthenticatedAuthClient m x w)) = 0 \<and>
        store_writes (trace (getAuthenticatedAuthClient m x w)) = 0 \<and>
        after (getAuthenticatedAuthClient m x w) = w \<and>
        result (getAuthenticatedAuthClient m x w) = Inr (setCredentials authClient c)) \<and>
     (\<not> (\<exists>e. expiry_date c = Val e \<and> e \<noteq> 0 \<and> now_check x + 300000 \<le> e) \<longrightarrow>
        (if truthy_str (refresh_token c)
         then refresh_calls (trace (getAuthenticatedAuthClient m x w)) = 1
         else refresh_calls (trace (getAuthenticatedAuthClient m x w)) = 0 \<and>
              result (getAuthenticatedAuthClient m x w) = Inl (Error no_refresh_token_message)))"
  using assms
  by (auto simp: getAuthenticatedAuthClient_def needs_refresh_def refresh_branch_def
      reuse_branch_def Let_def split: field.splits sum.splits option.splits)

theorem C1_freshness_witness:
  "refresh_calls (trace (getAuthenticatedAuthClient ex_manager (ex_external 700000) ex_world)) = 0 \<and>
   store_writes (trace (getAuthenticatedAuthClient ex_manager (ex_external 700000) ex_world)) = 0 \<and>
   after (getAuthenticatedAuthClient ex_manager (ex_external 700000) ex_world) = ex_world \<and>
   result (getAuthenticatedAuthClient ex_manager (ex_external 700000) ex_world)
     = Inr (setCredentials ex_client ex_stored) \<and>
   refresh_calls (trace (getAuthenticatedAuthClient ex_manager (ex_external 700001) ex_world)) = 1"
  using C1_freshness [OF ex_createAuthClient ex_read_store, of "ex_external 700000"]
    C1_freshness [OF ex_createAuthClient ex_read_store, of "ex_external 700001"]
  by (simp add: ex_stored_def ex_external_def truthy_str_def)

text \<open>
  C1 as stated fails at the boundary: the stored \<open>expiry_date\<close> is 1000000, the clock reads
  700000, so the current time plus 300000 ms equals \<open>expiry_date\<close>, and the call, with a
  refresh token at hand, makes no refresh call. It also fails where no expiry is recorded
  and no refresh token is at hand: the call makes no refresh call, it fails.
\<close>

theorem C1_boundary_counterexample:
  "read_store ex_manager ex_world (seed_credentials ex_manager) = Inr ex_stored \<and>
   expiry_date ex_stored = Val (now_check (ex_external 700000) + 300000) \<and>
   truthy_str (refresh_token ex_stored) \<and>
   refresh_calls (trace (getAuthenticatedAuthClient ex_manager (ex_external 700000) ex_world)) = 0 \<and>
   read_store ex_manager empty_world (seed_credentials ex_manager)
     = Inr \<lparr> access_token = Undefined, expiry_date = Undefined, refresh_token = Undefined \<rparr> \<and>
   refresh_calls (trace (getAuthenticatedAuthClient ex_manager (ex_external 0) empty_world)) = 0"
proof -
  have a: "createAuthClient ex_manager empty_world = Inr ex_client"
    by (simp add: secret_to_client ex_manager_fields world_secrets)
  have b: "read_store ex_manager empty_world (seed_credentials ex_manager)
             = Inr \<lparr> access_token = Undefined, expiry_date = Undefined, refresh_token = Undefined \<rparr>"
    by (simp add: read_store_def existsSync_def ex_manager_fields world_stores world_dirs
        seed_credentials_def)
  have c: "refresh_calls (trace (getAuthenticatedAuthClient ex_manager (ex_external 700000) ex_world)) = 0"
    by (simp add: getAuthenticatedAuthClient_def ex_createAuthClient ex_read_store
        needs_refresh_def reuse_branch_def ex_stored_def ex_external_def)
  have d: "refresh_calls (trace (getAuthenticatedAuthClient ex_manager (ex_external 0) empty_world)) = 0"
    by (simp add: getAuthenticatedAuthClient_def a b needs_refresh_def refresh_branch_def
        truthy_str_def)
  from b c d show ?thesis
    by (simp add: ex_read_store ex_stored_def ex_external_def truthy_str_def)
qed

section \<open>The refresh token\<close>

text \<open>
  C2 on the code: a default refresh token \<open>RT1\<close> is configured and the store file exists
  without a refresh token. Line 119 assigns the absent stored value over the seeded one,
  so the stale token cannot be renewed: the call fails with the missing-refresh-token
  error and makes no refresh call.
\<close>

theorem C2_default_refresh_token_discarded:
  "refresh_token (seed_credentials ci_manager) = Val ''RT1'' \<and>
   read_store ci_manager no_refresh_world (seed_credentials ci_manager) = Inr no_refresh_stored \<and>
   refresh_token no_refresh_stored = Undefined \<and>
   result (getAuthenticatedAuthClient ci_manager (ex_external 2000000) no_refresh_world)
     = Inl (Error no_refresh_token_message) \<and>
   refresh_calls (trace (getAuthenticatedAuthClient ci_manager (ex_external 2000000) no_refresh_world)) = 0"
  by (simp add: getAuthenticatedAuthClient_def secret_to_client world_secrets world_stores
      read_store_def existsSync_def readFileSync_def seed_credentials_def ci_manager_fields
      no_refresh_stored_def needs_refresh_def refresh_branch_def truthy_str_def truthy_num_def
      ex_external_def)

text \<open>
  C3: where the freshness test fails and neither the configuration nor the store holds
  a non-empty refresh token, the call fails with the error whose message asks for the
  token through \<open>GOOGLE_REFRESH_TOKEN\<close>; the file system is as before, and neither a store
  write nor a refresh call is made.
\<close>

theorem C3_missing_refresh_token:
  assumes "createAuthClient m w = Inr authClient"
    and "read_store m w (seed_credentials m) = Inr c"
    and "needs_refresh (now_check x) c"
    and "defaultRefreshToken m = None \<or> defaultRefreshToken m = Some []"
    and "\<forall>p t. store_path m = Some p \<and> files w p = Some (CredentialsDoc t)
           \<longrightarrow> \<not> truthy_str (refresh_token t)"
  shows "result (getAuthenticatedAuthClient m x w) = Inl (Error no_refresh_token_message) \<and>
         no_refresh_token_message =
           ''No refresh token found. Please provide one via the GOOGLE_REFRESH_TOKEN environment variable.'' \<and>
         after (getAuthenticatedAuthClient m x w) = w \<and>
         store_writes (trace (getAuthenticatedAuthClient m x w)) = 0 \<and>
         refresh_calls (trace (getAuthenticatedAuthClient m x w)) = 0"
proof -
  have "\<not> truthy_str (refresh_token c)"
    using assms(2,4,5)
    by (auto simp: read_store_def readFileSync_def seed_credentials_def truthy_str_def
        split: option.splits content.splits if_splits)
  then show ?thesis
    using assms(1,2,3)
    by (simp add: getAuthenticatedAuthClient_def refresh_branch_def no_refresh_token_message_def)
qed

theorem C3_missing_refresh_token_witness:
  "result (getAuthenticatedAuthClient ex_manager (ex_external 0) empty_world)
     = Inl (Error no_refresh_token_message) \<and>
   after (getAuthenticatedAuthClient ex_manager (ex_external 0) empty_world) = empty_world \<and>
   store_writes (trace (getAuthenticatedAuthClient ex_manager (ex_external 0) empty_world)) = 0"
proof -
  have a: "createAuthClient ex_manager empty_world = Inr ex_client"
    by (simp add: secret_to_client ex_manager_fields world_secrets)
  have b: "read_store ex_manager empty_world (seed_credentials ex_manager)
             = Inr (seed_credentials ex_manager)"
    by (simp add: read_store_def existsSync_def ex_manager_fields world_stores world_dirs)
  have c: "needs_refresh (now_check (ex_external 0)) (seed_credentials ex_manager)"
    by (simp add: needs_refresh_def seed_credentials_def)
  have d: "defaultRefreshToken ex_manager = None \<or> defaultRefreshToken ex_manager = Some []"
    by (simp add: ex_manager_fields)
  have e: "\<forall>p t. store_path ex_manager = Some p \<and> files empty_world p = Some (CredentialsDoc t)
             \<longrightarrow> \<not> truthy_str (refresh_token t)"
    by (simp add: ex_manager_fields world_stores)
  from C3_missing_refresh_token [OF a b c d e] show ?thesis by simp
qed

text \<open>
  C4: when the refresh call answers, the document handed to the store write (where
  persistence is enabled) has the refresh token the credential set had before the refresh
  and the access token and expiry of the answer; when the call then returns a client,
  that same set is installed on it and is the content of the store file.
\<close>

theorem C4_refresh_merge:
  assumes "createAuthClient m w = Inr authClient"
    and "read_store m w (seed_credentials m) = Inr c"
    and "needs_refresh (now_check x) c"
    and "truthy_str (refresh_token c)"
    and "refreshAccessToken x (setCredentials authClient c) = Inr response"
  shows "(\<forall>p. store_path m = Some p \<longrightarrow>
            filter is_store_write (trace (getAuthenticatedAuthClient m x w))
              = [StoreWrite p \<lparr> access_token = access_token response,
                                 expiry_date = expiry_date response,
                                 refresh_token = refresh_token c \<rparr>]) \<and>
         (\<forall>authClient'. result (getAuthenticatedAuthClient m x w) = Inr authClient' \<longrightarrow>
            client_credentials authClient'
              = \<lparr> access_token = access_token response, expiry_date = expiry_date response,
                  refresh_token = refresh_token c \<rparr> \<and>
            (\<forall>p. store_path m = Some p \<longrightarrow>
               files (after (getAuthenticatedAuthClient m x w)) p
                 = Some (CredentialsDoc \<lparr> access_token = access_token response,
                                          expiry_date = expiry_date response,
                                          refresh_token = refresh_token c \<rparr>)))"
  using assms
  by (auto simp: getAuthenticatedAuthClient_def refresh_branch_def Let_def setCredentials_def
      writeFileSync_def read_store_events_def split: option.splits if_splits)

theorem C4_refresh_merge_witness:
  "filter is_store_write (trace (getAuthenticatedAuthClient ex_manager (ex_external 700001) ex_world))
     = [StoreWrite ''.data/google_auth.json'' ex_merged] \<and>
   result (getAuthenticatedAuthClient ex_manager (ex_external 700001) ex_world)
     = Inr (setCredentials ex_client ex_merged) \<and>
   files (after (getAuthenticatedAuthClient ex_manager (ex_external 700001) ex_world))
       ''.data/google_auth.json''
     = Some (CredentialsDoc ex_merged)"
proof -
  have c: "needs_refresh (now_check (ex_external 700001)) ex_stored"
    by (simp add: needs_refresh_def ex_stored_def ex_external_def)
  have d: "truthy_str (refresh_token ex_stored)"
    by (simp add: truthy_str_def ex_stored_def)
  have e: "refreshAccessToken (ex_external 700001) (setCredentials ex_client ex_stored)
             = Inr ex_response"
    by (simp add: ex_external_def)
  have m: "\<lparr> access_token = access_token ex_response, expiry_date = expiry_date ex_response,
              refresh_token = refresh_token ex_stored \<rparr> = ex_merged"
    by (simp add: ex_response_def ex_stored_def ex_merged_def)
  have m': "ex_stored\<lparr>access_token := access_token ex_response,
                        expiry_date := expiry_date ex_response\<rparr> = ex_merged"
    by (simp add: ex_response_def ex_stored_def ex_merged_def)
  have ok: "result (getAuthenticatedAuthClient ex_manager (ex_external 700001) ex_world)
              = Inr (setCredentials ex_client ex_merged)"
    by (simp add: getAuthenticatedAuthClient_def ex_createAuthClient ex_read_store c d e m'
        refresh_branch_def ex_manager_fields writeFileSync_def dirname_examples world_dirs
        Let_def)
  from C4_refresh_merge [OF ex_createAuthClient ex_read_store c d e] ok
  show ?thesis
    by (simp add: m ex_manager_fields)
qed

section \<open>Keeping the stored refresh token\<close>

lemma ancestors_self: "d \<in> set (ancestors k d)"
  by (cases k) simp_all

lemma writeFileSync_mkdirSync:
  "writeFileSync p c (mkdirSync (dirname p) w)
     = Inr ((mkdirSync (dirname p) w)\<lparr>files := (files w)(p \<mapsto> c)\<rparr>)"
  by (simp add: writeFileSync_def mkdirSync_def ancestors_self)

lemma get_keeps_stored:
  assumes "stored_refresh_token m w = Some f"
  shows "stored_refresh_token m (after (getAuthenticatedAuthClient m x w)) = Some f"
proof (cases "store_path m")
  case None
  with assms show ?thesis by (simp add: stored_refresh_token_def)
next
  case (Some p)
  with assms obtain t where t: "files w p = Some (CredentialsDoc t)" "refresh_token t = f"
    by (auto simp: stored_refresh_token_def split: option.splits content.splits)
  show ?thesis
    using Some t
    by (auto simp: getAuthenticatedAuthClient_def refresh_branch_def reuse_branch_def Let_def
        read_store_def existsSync_def readFileSync_def writeFileSync_def stored_refresh_token_def
        split: sum.splits option.splits)
qed

lemma login_stores_tokens:
  assumes "createAuthClient m w = Inr authClient" and "getToken authClient code = Inr tokens"
    and "store_path m = Some p"
  shows "result (login m getToken code w) = Inr () \<and>
         files (after (login m getToken code w)) p = Some (CredentialsDoc tokens)"
  using assms by (simp add: login_def Let_def writeFileSync_mkdirSync)

lemma login_keeps_stored:
  assumes "stored_refresh_token m w = Some f" and "keeps f (Login getToken code)"
  shows "stored_refresh_token m (after (login m getToken code w)) = Some f"
proof (cases "createAuthClient m w")
  case (Inl e)
  with assms show ?thesis by (simp add: login_def)
next
  case (Inr authClient)
  show ?thesis
  proof (cases "getToken authClient code")
    case (Inl e)
    with Inr assms show ?thesis by (simp add: login_def)
  next
    case tok: (Inr tokens)
    from assms(2) have "case getToken authClient code of Inl e \<Rightarrow> True
                        | Inr tokens \<Rightarrow> refresh_token tokens = f"
      by simp
    with tok have same: "refresh_token tokens = f" by simp
    from assms(1) obtain p where p: "store_path m = Some p"
      by (auto simp: stored_refresh_token_def split: option.splits)
    from login_stores_tokens [of m w authClient getToken code tokens p] Inr tok p same
    show ?thesis
      by (simp add: stored_refresh_token_def)
  qed
qed

lemma run_keeps_stored:
  "stored_refresh_token m w = Some f \<Longrightarrow> \<forall>c\<in>set cs. keeps f c
     \<Longrightarrow> stored_refresh_token m (fst (run m cs w)) = Some f"
proof (induction cs arbitrary: w)
  case Nil
  then show ?case by simp
next
  case (Cons c cs)
  show ?case
  proof (cases c)
    case (Login getToken code)
    with Cons.prems have "stored_refresh_token m (after (login m getToken code w)) = Some f"
      by (simp add: login_keeps_stored del: keeps.simps)
    from Cons.IH [OF this] Cons.prems(2) Login show ?thesis
      by (simp add: Let_def split_beta del: keeps.simps)
  next
    case (GetAuthenticatedAuthClient x)
    from Cons.prems(1)
    have "stored_refresh_token m (after (getAuthenticatedAuthClient m x w)) = Some f"
      by (rule get_keeps_stored)
    from Cons.IH [OF this] Cons.prems(2) GetAuthenticatedAuthClient show ?thesis
      by (simp add: Let_def split_beta)
  qed
qed

text \<open>
  C5, as the code has it. A refresh token held by the stored document is left as it is
  by every \<open>getAuthenticatedAuthClient\<close> call, and by every sequence of calls whose logins
  fail or are answered with that same refresh token. A \<open>login\<close> that succeeds replaces the
  stored document by the token set of the exchange: the stored refresh token is then
  the one the exchange returned, or none.
\<close>

theorem C5_refresh_token_kept:
  assumes "stored_refresh_token m w = Some f"
  shows "((\<forall>c\<in>set cs. keeps f c) \<longrightarrow> stored_refresh_token m (fst (run m cs w)) = Some f) \<and>
         stored_refresh_token m (after (getAuthenticatedAuthClient m x w)) = Some f \<and>
         (\<forall>authClient tokens.
            createAuthClient m w = Inr authClient \<and> getToken authClient code = Inr tokens \<longrightarrow>
            stored_refresh_token m (after (login m getToken code w)) = Some (refresh_token tokens))"
proof (intro conjI allI impI)
  assume "\<forall>c\<in>set cs. keeps f c"
  with assms show "stored_refresh_token m (fst (run m cs w)) = Some f"
    by (rule run_keeps_stored)
next
  show "stored_refresh_token m (after (getAuthenticatedAuthClient m x w)) = Some f"
    using assms by (rule get_keeps_stored)
next
  fix authClient tokens
  assume h: "createAuthClient m w = Inr authClient \<and> getToken authClient code = Inr tokens"
  from assms obtain p where p: "store_path m = Some p"
    by (auto simp: stored_refresh_token_def split: option.splits)
  from h p login_stores_tokens [of m w authClient getToken code tokens p]
  show "stored_refresh_token m (after (login m getToken code w)) = Some (refresh_token tokens)"
    by (simp add: stored_refresh_token_def)
qed

lemma ex_stored_refresh_token: "stored_refresh_token ex_manager ex_world = Some (Val ''RT0'')"
  by (simp add: stored_refresh_token_def ex_manager_fields world_stores ex_stored_def)

theorem C5_refresh_token_kept_witness:
  "stored_refresh_token ex_manager
     (fst (run ex_manager
             [GetAuthenticatedAuthClient (ex_external 700001),
              Login getToken_same_refresh ''code'',
              GetAuthenticatedAuthClient (ex_external 700000)]
             ex_world)) = Some (Val ''RT0'') \<and>
   stored_refresh_token ex_manager
     (after (getAuthenticatedAuthClient ex_manager (ex_external 700001) ex_world))
     = Some (Val ''RT0'') \<and>
   stored_refresh_token ex_manager
     (after (login ex_manager getToken_without_refresh ''code'' ex_world)) = Some Undefined"
proof -
  have k: "\<forall>c\<in>set [GetAuthenticatedAuthClient (ex_external 700001),
                    Login getToken_same_refresh ''code'',
                    GetAuthenticatedAuthClient (ex_external 700000)]. keeps (Val ''RT0'') c"
    by (simp add: getToken_same_refresh_def ex_merged_def)
  have g: "createAuthClient ex_manager ex_world = Inr ex_client \<and>
           getToken_without_refresh ex_client ''code'' = Inr ex_response"
    by (simp add: ex_createAuthClient getToken_without_refresh_def)
  from C5_refresh_token_kept [OF ex_stored_refresh_token,
      of "[GetAuthenticatedAuthClient (ex_external 700001),
           Login getToken_same_refresh ''code'',
           GetAuthenticatedAuthClient (ex_external 700000)]"
         "ex_external 700001" getToken_without_refresh "''code''"] k g
  show ?thesis
    by (simp add: ex_response_def del: keeps.simps)
qed

text \<open>
  C5 as stated fails: the store holds the refresh token \<open>RT0\<close>, a later login is answered
  with a token set that has no refresh token, and the stored document has none afterwards.
\<close>

theorem C5_login_counterexample:
  "stored_refresh_token ex_manager ex_world = Some (Val ''RT0'') \<and>
   stored_refresh_token ex_manager
     (fst (run ex_manager [Login getToken_without_refresh ''code''] ex_world)) = Some Undefined"
proof -
  have "files (after (login ex_manager getToken_without_refresh ''code'' ex_world))
          ''.data/google_auth.json'' = Some (CredentialsDoc ex_response)"
    by (simp add: login_def ex_createAuthClient getToken_without_refresh_def ex_manager_fields
        Let_def writeFileSync_mkdirSync)
  then have "stored_refresh_token ex_manager
               (after (login ex_manager getToken_without_refresh ''code'' ex_world)) = Some Undefined"
    by (simp add: stored_refresh_token_def ex_manager_fields ex_response_def)
  then show ?thesis
    by (simp add: ex_stored_refresh_token Let_def)
qed

section \<open>Persistence disabled\<close>

lemma store_path_Disabled: "authStateFile m = Disabled \<Longrightarrow> store_path m = None"
  by (simp add: store_path_def)

lemma get_without_store:
  assumes "store_path m = None"
  shows "after (getAuthenticatedAuthClient m x w) = w"
    and "\<forall>e\<in>set (trace (getAuthenticatedAuthClient m x w)). \<not> is_store_event e"
  using assms
  by (auto simp: getAuthenticatedAuthClient_def refresh_branch_def reuse_branch_def Let_def
      read_store_events_def split: sum.splits)

lemma login_without_store:
  assumes "store_path m = None"
  shows "after (login m getToken code w) = w"
    and "\<forall>e\<in>set (trace (login m getToken code w)). \<not> is_store_event e"
  using assms
  by (auto simp: login_def split: sum.splits)

lemma run_without_store:
  "store_path m = None \<Longrightarrow>
     fst (run m cs w) = w \<and> (\<forall>e\<in>set (snd (run m cs w)). \<not> is_store_event e)"
proof (induction cs arbitrary: w)
  case Nil
  then show ?case by simp
next
  case (Cons c cs)
  show ?case
  proof (cases c)
    case (Login getToken code)
    with Cons.IH [OF Cons.prems, of w] login_without_store [OF Cons.prems, of getToken code w]
    show ?thesis by (auto simp: Let_def split_beta)
  next
    case (GetAuthenticatedAuthClient x)
    with Cons.IH [OF Cons.prems, of w] get_without_store [OF Cons.prems, of x w]
    show ?thesis by (auto simp: Let_def split_beta)
  qed
qed

lemma get_without_store_success:
  assumes "store_path m = None" and "result (getAuthenticatedAuthClient m x w) = Inr a"
  shows "\<exists>t. defaultRefreshToken m = Some t \<and> t \<noteq> [] \<and>
             RefreshAccessToken \<lparr> access_token = Undefined, expiry_date = Undefined,
                                  refresh_token = Val t \<rparr>
               \<in> set (trace (getAuthenticatedAuthClient m x w))"
  using assms
  by (auto simp: getAuthenticatedAuthClient_def refresh_branch_def reuse_branch_def Let_def
      read_store_def existsSync_def readFileSync_def read_store_events_def needs_refresh_def seed_credentials_def truthy_str_def
      split: sum.splits option.splits if_splits)

text \<open>
  C6: with \<open>authStateFile\<close> set to \<open>false\<close>, any sequence of \<open>login\<close> and
  \<open>getAuthenticatedAuthClient\<close> calls leaves the file system as it was and touches the
  store in no way (no existence test, read, directory creation or write); and a
  \<open>getAuthenticatedAuthClient\<close> call that returns a client had a non-empty default refresh
  token configured and made its refresh call with exactly that token and nothing cached.
\<close>

theorem C6_persistence_disabled:
  assumes "authStateFile m = Disabled"
  shows "fst (run m cs w) = w \<and>
         (\<forall>e\<in>set (snd (run m cs w)). \<not> is_store_event e) \<and>
         (\<forall>x w' a. result (getAuthenticatedAuthClient m x w') = Inr a \<longrightarrow>
            (\<exists>t. defaultRefreshToken m = Some t \<and> t \<noteq> [] \<and>
                 RefreshAccessToken \<lparr> access_token = Undefined, expiry_date = Undefined,
                                      refresh_token = Val t \<rparr>
                   \<in> set (trace (getAuthenticatedAuthClient m x w'))))"
  using run_without_store [OF store_path_Disabled [OF assms]]
    get_without_store_success [OF store_path_Disabled [OF assms]]
  by blast

lemma disabled_get_result:
  "result (getAuthenticatedAuthClient disabled_manager (ex_external 0) ex_world)
     = Inr (setCredentials ex_client
              \<lparr> access_token = Val ''AT1'', expiry_date = Val 4600000, refresh_token = Val ''RT1'' \<rparr>)"
  by (simp add: getAuthenticatedAuthClient_def secret_to_client world_secrets read_store_def existsSync_def readFileSync_def
      seed_credentials_def disabled_manager_fields
      needs_refresh_def refresh_branch_def truthy_str_def truthy_num_def
      ex_external_def ex_response_def Let_def)

theorem C6_persistence_disabled_witness:
  "fst (run disabled_manager
          [Login getToken_same_refresh ''code'', GetAuthenticatedAuthClient (ex_external 0)]
          ex_world) = ex_world \<and>
   filter is_store_event
     (snd (run disabled_manager
             [Login getToken_same_refresh ''code'', GetAuthenticatedAuthClient (ex_external 0)]
             ex_world)) = [] \<and>
   (\<exists>t. defaultRefreshToken disabled_manager = Some t \<and> t \<noteq> [] \<and>
        RefreshAccessToken \<lparr> access_token = Undefined, expiry_date = Undefined,
                             refresh_token = Val t \<rparr>
          \<in> set (trace (getAuthenticatedAuthClient disabled_manager (ex_external 0) ex_world)))"
  using C6_persistence_disabled [OF disabled_manager_fields(2),
      of "[Login getToken_same_refresh ''code'', GetAuthenticatedAuthClient (ex_external 0)]"
         ex_world]
    disabled_get_result
  unfolding filter_empty_conv
  by blast

section \<open>Parent directories\<close>

text \<open>
  C7 on the code: the store is \<open>cache/google_auth.json\<close> and the directory \<open>cache\<close> does
  not exist. \<open>login\<close> creates the directory (line 191) and its write succeeds; the refresh
  path of \<open>getAuthenticatedAuthClient\<close> writes without creating it (lines 142 to 147), so
  after a refresh that succeeded the call fails with \<open>ENOENT\<close>.
\<close>

theorem C7_refresh_write_without_mkdir:
  "dirname ''cache/google_auth.json'' \<notin> dirs empty_world \<and>
   refresh_calls (trace (getAuthenticatedAuthClient cache_manager (ex_external 0) empty_world)) = 1 \<and>
   result (getAuthenticatedAuthClient cache_manager (ex_external 0) empty_world)
     = Inl (ENOENT ''cache/google_auth.json'') \<and>
   result (login cache_manager getToken_same_refresh ''code'' empty_world) = Inr () \<and>
   files (after (login cache_manager getToken_same_refresh ''code'' empty_world))
       ''cache/google_auth.json''
     = Some (CredentialsDoc ex_merged)"
proof -
  have a: "dirname ''cache/google_auth.json'' \<notin> dirs empty_world"
    by (simp add: dirname_examples world_dirs)
  have b: "createAuthClient cache_manager empty_world = Inr ex_client"
    by (simp add: secret_to_client cache_manager_fields world_secrets)
  have d: "refresh_calls (trace (getAuthenticatedAuthClient cache_manager (ex_external 0) empty_world)) = 1 \<and>
           result (getAuthenticatedAuthClient cache_manager (ex_external 0) empty_world)
             = Inl (ENOENT ''cache/google_auth.json'')"
    using a
    by (simp add: getAuthenticatedAuthClient_def b read_store_def existsSync_def readFileSync_def read_store_events_def
        world_stores world_dirs cache_manager_fields
        seed_credentials_def needs_refresh_def refresh_branch_def truthy_str_def truthy_num_def
        ex_external_def writeFileSync_def Let_def)
  have e: "result (login cache_manager getToken_same_refresh ''code'' empty_world) = Inr () \<and>
           files (after (login cache_manager getToken_same_refresh ''code'' empty_world))
               ''cache/google_auth.json''
             = Some (CredentialsDoc ex_merged)"
    by (rule login_stores_tokens [OF b])
       (simp_all add: getToken_same_refresh_def cache_manager_fields)
  from a d e show ?thesis by simp
qed

section \<open>Configuration\<close>

lemma createAuthClient_env: "createAuthClient m (w\<lparr>env := e\<rparr>) = createAuthClient m w"
  by (simp add: createAuthClient_def readFileSync_def)

lemma read_store_env: "read_store m (w\<lparr>env := e\<rparr>) c = read_store m w c"
  by (simp add: read_store_def existsSync_def readFileSync_def split: option.splits)

lemma read_store_events_env: "read_store_events m (w\<lparr>env := e\<rparr>) = read_store_events m w"
  by (simp add: read_store_events_def existsSync_def split: option.splits)

lemma writeFileSync_env:
  "writeFileSync p c (w\<lparr>env := e\<rparr>) = map_sum id (\<lambda>w'. w'\<lparr>env := e\<rparr>) (writeFileSync p c w)"
  by (simp add: writeFileSync_def)

lemma mkdirSync_env: "mkdirSync d (w\<lparr>env := e\<rparr>) = (mkdirSync d w)\<lparr>env := e\<rparr>"
  by (simp add: mkdirSync_def)

lemma refresh_branch_env:
  "refresh_branch m x (w\<lparr>env := e\<rparr>) a c =
     (refresh_branch m x w a c)\<lparr>after := (after (refresh_branch m x w a c))\<lparr>env := e\<rparr>\<rparr>"
  by (simp add: refresh_branch_def Let_def writeFileSync_env split: sum.splits option.splits)

lemma reuse_branch_env:
  "reuse_branch m x (w\<lparr>env := e\<rparr>) a c =
     (reuse_branch m x w a c)\<lparr>after := (after (reuse_branch m x w a c))\<lparr>env := e\<rparr>\<rparr>"
  by (simp add: reuse_branch_def)

lemma get_env:
  "getAuthenticatedAuthClient m x (w\<lparr>env := e\<rparr>) =
     (getAuthenticatedAuthClient m x w)\<lparr>after := (after (getAuthenticatedAuthClient m x w))\<lparr>env := e\<rparr>\<rparr>"
  by (simp add: getAuthenticatedAuthClient_def createAuthClient_env read_store_env
      read_store_events_env refresh_branch_env reuse_branch_env Let_def split: sum.splits)

lemma login_env:
  "login m getToken code (w\<lparr>env := e\<rparr>) =
     (login m getToken code w)\<lparr>after := (after (login m getToken code w))\<lparr>env := e\<rparr>\<rparr>"
  by (simp add: login_def createAuthClient_env mkdirSync_env writeFileSync_env
      writeFileSync_mkdirSync Let_def split: sum.splits option.splits)

text \<open>
  C8: the constructor resolves each field as the layered resolver does, the explicit
  option first, then the environment variable (\<open>GOOGLE_CLIENT_SECRET_FILE\<close>,
  \<open>GOOGLE_AUTH_STATE_FILE\<close>, \<open>GOOGLE_REFRESH_TOKEN\<close>; \<open>log\<close> has none), then the built-in
  default (\<open>defaultRefreshToken\<close> has none); an explicit option is the field's value
  whatever the environment holds; and the calls on the constructed manager do not depend
  on the environment at the time of the call: with another environment they return the
  same result, make the same trace and leave the same file system.
\<close>

theorem C8_configuration_resolved_once:
  "Some (clientSecretFile (new_GoogleOfflineAccess opts w))
     = layered (opt_clientSecretFile opts) (env w ''GOOGLE_CLIENT_SECRET_FILE'')
         (Some ''.data/google_client_secret.json'') \<and>
   Some (authStateFile (new_GoogleOfflineAccess opts w))
     = layered (opt_authStateFile opts) (map_option Path (env w ''GOOGLE_AUTH_STATE_FILE''))
         (Some (Path ''.data/google_auth.json'')) \<and>
   defaultRefreshToken (new_GoogleOfflineAccess opts w)
     = layered (opt_defaultRefreshToken opts) (env w ''GOOGLE_REFRESH_TOKEN'') None \<and>
   Some (log (new_GoogleOfflineAccess opts w))
     = layered (opt_log opts) None (Some default_log) \<and>
   (\<forall>v. opt_clientSecretFile opts = Some v \<longrightarrow>
        clientSecretFile (new_GoogleOfflineAccess opts w) = v) \<and>
   (\<forall>v. opt_authStateFile opts = Some v \<longrightarrow>
        authStateFile (new_GoogleOfflineAccess opts w) = v) \<and>
   (\<forall>v. opt_defaultRefreshToken opts = Some v \<longrightarrow>
        defaultRefreshToken (new_GoogleOfflineAccess opts w) = Some v) \<and>
   (\<forall>v. opt_log opts = Some v \<longrightarrow> log (new_GoogleOfflineAccess opts w) = v) \<and>
   (\<forall>e x w'.
      getAuthenticatedAuthClient (new_GoogleOfflineAccess opts w) x (w'\<lparr>env := e\<rparr>)
        = (getAuthenticatedAuthClient (new_GoogleOfflineAccess opts w) x w')
            \<lparr>after := (after (getAuthenticatedAuthClient (new_GoogleOfflineAccess opts w) x w'))
                        \<lparr>env := e\<rparr>\<rparr>) \<and>
   (\<forall>e getToken code w'.
      login (new_GoogleOfflineAccess opts w) getToken code (w'\<lparr>env := e\<rparr>)
        = (login (new_GoogleOfflineAccess opts w) getToken code w')
            \<lparr>after := (after (login (new_GoogleOfflineAccess opts w) getToken code w'))
                        \<lparr>env := e\<rparr>\<rparr>)"
proof -
  have fields:
    "Some (clientSecretFile (new_GoogleOfflineAccess opts w))
       = layered (opt_clientSecretFile opts) (env w ''GOOGLE_CLIENT_SECRET_FILE'')
           (Some ''.data/google_client_secret.json'')"
    "Some (authStateFile (new_GoogleOfflineAccess opts w))
       = layered (opt_authStateFile opts) (map_option Path (env w ''GOOGLE_AUTH_STATE_FILE''))
           (Some (Path ''.data/google_auth.json''))"
    "defaultRefreshToken (new_GoogleOfflineAccess opts w)
       = layered (opt_defaultRefreshToken opts) (env w ''GOOGLE_REFRESH_TOKEN'') None"
    "Some (log (new_GoogleOfflineAccess opts w)) = layered (opt_log opts) None (Some default_log)"
    by (simp_all add: new_GoogleOfflineAccess_def layered_def nullish_def split: option.splits)
  have wins:
    "\<forall>v. opt_clientSecretFile opts = Some v \<longrightarrow>
        clientSecretFile (new_GoogleOfflineAccess opts w) = v"
    "\<forall>v. opt_authStateFile opts = Some v \<longrightarrow>
        authStateFile (new_GoogleOfflineAccess opts w) = v"
    "\<forall>v. opt_defaultRefreshToken opts = Some v \<longrightarrow>
        defaultRefreshToken (new_GoogleOfflineAccess opts w) = Some v"
    "\<forall>v. opt_log opts = Some v \<longrightarrow> log (new_GoogleOfflineAccess opts w) = v"
    by (simp_all add: new_GoogleOfflineAccess_def nullish_def)
  from fields wins show ?thesis
    by (simp only: get_env login_env simp_thms)
qed

theorem C8_configuration_resolved_once_witness:
  "env env_world ''GOOGLE_CLIENT_SECRET_FILE'' = Some ''env_secret.json'' \<and>
   clientSecretFile (new_GoogleOfflineAccess explicit_options env_world) = ''secret.json'' \<and>
   authStateFile (new_GoogleOfflineAccess explicit_options env_world) = Disabled \<and>
   defaultRefreshToken (new_GoogleOfflineAccess explicit_options env_world) = Some ''RT9'' \<and>
   log (new_GoogleOfflineAccess explicit_options env_world) ''a'' = ''a'' \<and>
   clientSecretFile (new_GoogleOfflineAccess ex_options env_world) = ''env_secret.json'' \<and>
   authStateFile (new_GoogleOfflineAccess ex_options env_world) = Path ''env_auth.json'' \<and>
   defaultRefreshToken (new_GoogleOfflineAccess ex_options env_world) = Some ''RT_ENV'' \<and>
   clientSecretFile (new_GoogleOfflineAccess ex_options ex_world) = ''.data/google_client_secret.json''"
  using C8_configuration_resolved_once [of explicit_options env_world]
    C8_configuration_resolved_once [of ex_options env_world]
    C8_configuration_resolved_once [of ex_options ex_world]
  by (simp add: explicit_options_def ex_options_def env_world_def ex_world_def layered_def)

section \<open>Effects of one call\<close>

text \<open>
  C9, as the code has it. A call reads the store at most once: not at all where the
  client secret cannot be read, and otherwise exactly once where persistence is enabled
  and a file or directory exists at the store path, and not at all where it is disabled
  or nothing exists there. It writes the store at most once and emits at most one log
  line: none, and no store write, where the client secret or the store cannot be read,
  and otherwise exactly one: the no-token-found message where \<open>expiry_date\<close> is absent,
  \<open>null\<close> or 0, the token-expired message where it is another number and stale, and
  otherwise the still-valid message with the whole minutes left, the floor of
  \<open>expiry_date\<close> minus the current time over 60000.
\<close>

theorem C9_effects_per_call:
  "store_reads (trace (getAuthenticatedAuthClient m x w)) \<le> 1 \<and>
   store_writes (trace (getAuthenticatedAuthClient m x w)) \<le> 1 \<and>
   length (log_lines (trace (getAuthenticatedAuthClient m x w))) \<le> 1 \<and>
   (\<forall>err. createAuthClient m w = Inl err \<longrightarrow>
      store_reads (trace (getAuthenticatedAuthClient m x w)) = 0 \<and>
      store_writes (trace (getAuthenticatedAuthClient m x w)) = 0 \<and>
      log_lines (trace (getAuthenticatedAuthClient m x w)) = []) \<and>
   (\<forall>a. createAuthClient m w = Inr a \<longrightarrow>
      store_reads (trace (getAuthenticatedAuthClient m x w))
        = (if (\<exists>p. store_path m = Some p \<and> existsSync w p) then 1 else 0)) \<and>
   (\<forall>a err. createAuthClient m w = Inr a \<and> read_store m w (seed_credentials m) = Inl err \<longrightarrow>
      store_writes (trace (getAuthenticatedAuthClient m x w)) = 0 \<and>
      log_lines (trace (getAuthenticatedAuthClient m x w)) = []) \<and>
   (\<forall>a c. createAuthClient m w = Inr a \<and> read_store m w (seed_credentials m) = Inr c \<longrightarrow>
      (\<not> truthy_num (expiry_date c) \<longrightarrow>
         log_lines (trace (getAuthenticatedAuthClient m x w))
           = [log m ''No token found, getting new one...'']) \<and>
      (\<forall>e. expiry_date c = Val e \<and> e \<noteq> 0 \<and> now_check x + 300000 > e \<longrightarrow>
         log_lines (trace (getAuthenticatedAuthClient m x w))
           = [log m ''Token expired, renewing...'']) \<and>
      (\<forall>e. expiry_date c = Val e \<and> e \<noteq> 0 \<and> now_check x + 300000 \<le> e \<longrightarrow>
         log_lines (trace (getAuthenticatedAuthClient m x w))
           = [log m (''Token is still valid for '' @ show_int ((e - now_report x) div 60000)
                      @ '' minutes'')]))"
proof -
  have r: "store_reads (trace (getAuthenticatedAuthClient m x w)) \<le> 1"
    by (auto simp: getAuthenticatedAuthClient_def refresh_branch_def reuse_branch_def Let_def
        read_store_events_reads split: sum.splits option.splits)
  have wr: "store_writes (trace (getAuthenticatedAuthClient m x w)) \<le> 1"
    by (auto simp: getAuthenticatedAuthClient_def refresh_branch_def reuse_branch_def Let_def
        split: sum.splits option.splits)
  have l: "length (log_lines (trace (getAuthenticatedAuthClient m x w))) \<le> 1"
    by (auto simp: getAuthenticatedAuthClient_def refresh_branch_def reuse_branch_def Let_def
        split: sum.splits option.splits)
  have r0: "\<forall>err. createAuthClient m w = Inl err \<longrightarrow>
      store_reads (trace (getAuthenticatedAuthClient m x w)) = 0 \<and>
      store_writes (trace (getAuthenticatedAuthClient m x w)) = 0 \<and>
      log_lines (trace (getAuthenticatedAuthClient m x w)) = []"
    by (simp add: getAuthenticatedAuthClient_def)
  have r1: "\<forall>a. createAuthClient m w = Inr a \<longrightarrow>
      store_reads (trace (getAuthenticatedAuthClient m x w))
        = (if (\<exists>p. store_path m = Some p \<and> existsSync w p) then 1 else 0)"
    by (auto simp: getAuthenticatedAuthClient_def refresh_branch_def reuse_branch_def Let_def
        read_store_events_reads split: sum.splits option.splits)
  have e1: "\<forall>a err. createAuthClient m w = Inr a \<and> read_store m w (seed_credentials m) = Inl err \<longrightarrow>
      store_writes (trace (getAuthenticatedAuthClient m x w)) = 0 \<and>
      log_lines (trace (getAuthenticatedAuthClient m x w)) = []"
    by (simp add: getAuthenticatedAuthClient_def)
  have msg: "\<forall>a c. createAuthClient m w = Inr a \<and> read_store m w (seed_credentials m) = Inr c \<longrightarrow>
      (\<not> truthy_num (expiry_date c) \<longrightarrow>
         log_lines (trace (getAuthenticatedAuthClient m x w))
           = [log m ''No token found, getting new one...'']) \<and>
      (\<forall>e. expiry_date c = Val e \<and> e \<noteq> 0 \<and> now_check x + 300000 > e \<longrightarrow>
         log_lines (trace (getAuthenticatedAuthClient m x w))
           = [log m ''Token expired, renewing...'']) \<and>
      (\<forall>e. expiry_date c = Val e \<and> e \<noteq> 0 \<and> now_check x + 300000 \<le> e \<longrightarrow>
         log_lines (trace (getAuthenticatedAuthClient m x w))
           = [log m (''Token is still valid for '' @ show_int ((e - now_report x) div 60000)
                      @ '' minutes'')])"
    by (auto simp: getAuthenticatedAuthClient_def refresh_branch_def reuse_branch_def Let_def
        needs_refresh_def truthy_num_def still_valid_message_def
        split: sum.splits option.splits field.splits)
  from r wr l r0 r1 e1 msg show ?thesis by blast
qed

theorem C9_effects_per_call_witness:
  "store_reads (trace (getAuthenticatedAuthClient ex_manager (ex_external 700000) ex_world)) = 1 \<and>
   log_lines (trace (getAuthenticatedAuthClient ex_manager (ex_external 700000) ex_world))
     = [''[GoogleOfflineAccess] Token is still valid for 5 minutes''] \<and>
   log_lines (trace (getAuthenticatedAuthClient ex_manager (ex_external 700001) ex_world))
     = [''[GoogleOfflineAccess] Token expired, renewing...''] \<and>
   store_reads (trace (getAuthenticatedAuthClient ex_manager (ex_external 0) empty_world)) = 0 \<and>
   store_reads (trace (getAuthenticatedAuthClient ex_manager (ex_external 0) bare_world)) = 0 \<and>
   log_lines (trace (getAuthenticatedAuthClient ex_manager (ex_external 0) bare_world)) = [] \<and>
   read_store ex_manager dir_store_world (seed_credentials ex_manager)
     = Inl (EISDIR ''.data/google_auth.json'') \<and>
   store_reads (trace (getAuthenticatedAuthClient ex_manager (ex_external 0) dir_store_world)) = 1 \<and>
   log_lines (trace (getAuthenticatedAuthClient ex_manager (ex_external 0) dir_store_world)) = []"
proof -
  have ex: "\<exists>p. store_path ex_manager = Some p \<and> existsSync ex_world p"
    by (simp add: ex_manager_fields existsSync_def world_stores)
  have nex: "\<not> (\<exists>p. store_path ex_manager = Some p \<and> existsSync empty_world p)"
    by (simp add: ex_manager_fields existsSync_def world_stores world_dirs)
  have dex: "\<exists>p. store_path ex_manager = Some p \<and> existsSync dir_store_world p"
    by (simp add: ex_manager_fields existsSync_def dir_store_world_def)
  have sh: "show_int 5 = ''5''"
    by (simp add: show_int_def show_nat.simps)
  have ea: "createAuthClient ex_manager empty_world = Inr ex_client"
    by (simp add: secret_to_client ex_manager_fields world_secrets)
  have ba: "createAuthClient ex_manager bare_world = Inl (ENOENT ''.data/google_client_secret.json'')"
    by (simp add: createAuthClient_def readFileSync_def ex_manager_fields bare_world_def)
  have da: "createAuthClient ex_manager dir_store_world = Inr ex_client"
    by (simp add: secret_to_client ex_manager_fields dir_store_world_def)
  have db: "read_store ex_manager dir_store_world (seed_credentials ex_manager)
              = Inl (EISDIR ''.data/google_auth.json'')"
    by (simp add: read_store_def existsSync_def readFileSync_def ex_manager_fields
        dir_store_world_def)
  from C9_effects_per_call [of ex_manager "ex_external 700000" ex_world]
    C9_effects_per_call [of ex_manager "ex_external 700001" ex_world]
    ex ex_createAuthClient ex_read_store sh
  have one: "store_reads (trace (getAuthenticatedAuthClient ex_manager (ex_external 700000) ex_world)) = 1 \<and>
     log_lines (trace (getAuthenticatedAuthClient ex_manager (ex_external 700000) ex_world))
       = [''[GoogleOfflineAccess] Token is still valid for 5 minutes''] \<and>
     log_lines (trace (getAuthenticatedAuthClient ex_manager (ex_external 700001) ex_world))
       = [''[GoogleOfflineAccess] Token expired, renewing...'']"
    by (simp add: ex_stored_def ex_external_def ex_manager_fields default_log_def)
  from C9_effects_per_call [of ex_manager "ex_external 0" empty_world] ea nex
  have two: "store_reads (trace (getAuthenticatedAuthClient ex_manager (ex_external 0) empty_world)) = 0"
    by simp
  from C9_effects_per_call [of ex_manager "ex_external 0" bare_world] ba
  have three: "store_reads (trace (getAuthenticatedAuthClient ex_manager (ex_external 0) bare_world)) = 0 \<and>
     log_lines (trace (getAuthenticatedAuthClient ex_manager (ex_external 0) bare_world)) = []"
    by simp
  from C9_effects_per_call [of ex_manager "ex_external 0" dir_store_world] da db dex
  have four: "store_reads (trace (getAuthenticatedAuthClient ex_manager (ex_external 0) dir_store_world)) = 1 \<and>
     log_lines (trace (getAuthenticatedAuthClient ex_manager (ex_external 0) dir_store_world)) = []"
    by simp
  from one two three four db show ?thesis by simp
qed

text \<open>
  C9 as stated fails: with persistence disabled a call that returns a client makes no
  store read, and touches the store in no way; and a call that finds no client secret
  fails before it logs anything.
\<close>

theorem C9_no_store_read_counterexample:
  "(\<exists>a. result (getAuthenticatedAuthClient disabled_manager (ex_external 0) ex_world) = Inr a) \<and>
   store_reads (trace (getAuthenticatedAuthClient disabled_manager (ex_external 0) ex_world)) = 0 \<and>
   filter is_store_event (trace (getAuthenticatedAuthClient disabled_manager (ex_external 0) ex_world)) = [] \<and>
   result (getAuthenticatedAuthClient ex_manager (ex_external 0) bare_world)
     = Inl (ENOENT ''.data/google_client_secret.json'') \<and>
   log_lines (trace (getAuthenticatedAuthClient ex_manager (ex_external 0) bare_world)) = []"
proof -
  have a: "createAuthClient ex_manager bare_world = Inl (ENOENT ''.data/google_client_secret.json'')"
    by (simp add: createAuthClient_def readFileSync_def ex_manager_fields bare_world_def)
  have b: "result (getAuthenticatedAuthClient ex_manager (ex_external 0) bare_world)
             = Inl (ENOENT ''.data/google_client_secret.json'') \<and>
           log_lines (trace (getAuthenticatedAuthClient ex_manager (ex_external 0) bare_world)) = []"
    by (simp add: getAuthenticatedAuthClient_def a)
  have c: "(\<exists>a. result (getAuthenticatedAuthClient disabled_manager (ex_external 0) ex_world) = Inr a) \<and>
           store_reads (trace (getAuthenticatedAuthClient disabled_manager (ex_external 0) ex_world)) = 0 \<and>
           filter is_store_event
             (trace (getAuthenticatedAuthClient disabled_manager (ex_external 0) ex_world)) = []"
    by (simp add: getAuthenticatedAuthClient_def secret_to_client world_secrets read_store_def existsSync_def readFileSync_def
        read_store_events_def seed_credentials_def disabled_manager_fields
        needs_refresh_def refresh_branch_def truthy_str_def truthy_num_def
        ex_external_def ex_response_def Let_def)
  from b c show ?thesis by simp
qed

section \<open>An expiry of 0\<close>

text \<open>
  C10: where the store file holds a credentials document whose \<open>expiry_date\<close> is 0,
  \<open>null\<close> or absent, whatever its access token, the loaded credential set fails the
  freshness test at every clock reading, the call logs the no-token-found message and
  not the token-expired one, and it goes on as the refresh branch does: one refresh call
  where the document holds a refresh token, the missing-refresh-token error where not.
  The token-expired message is logged for a stale expiry other than 0. So the two
  messages of the refresh branch are told apart by the truthiness of \<open>expiry_date\<close>.
\<close>

theorem C10_falsy_expiry:
  assumes "createAuthClient m w = Inr authClient"
    and "store_path m = Some p"
    and "files w p = Some (CredentialsDoc t)"
  shows "(\<not> truthy_num (expiry_date t) \<longrightarrow>
            (\<forall>now c. read_store m w (seed_credentials m) = Inr c \<longrightarrow> needs_refresh now c) \<and>
            log_lines (trace (getAuthenticatedAuthClient m x w))
              = [log m ''No token found, getting new one...''] \<and>
            (if truthy_str (refresh_token t)
             then refresh_calls (trace (getAuthenticatedAuthClient m x w)) = 1
             else result (getAuthenticatedAuthClient m x w)
                    = Inl (Error no_refresh_token_message))) \<and>
         (\<forall>e. expiry_date t = Val e \<and> e \<noteq> 0 \<and> now_check x + 300000 > e \<longrightarrow>
            log_lines (trace (getAuthenticatedAuthClient m x w))
              = [log m ''Token expired, renewing...''])"
proof -
  let ?c = "(seed_credentials m)\<lparr>access_token := access_token t,
              expiry_date := expiry_date t, refresh_token := refresh_token t\<rparr>"
  have loaded: "read_store m w (seed_credentials m) = Inr ?c"
    using assms(2,3) by (simp add: read_store_def existsSync_def readFileSync_def)
  show ?thesis
    using assms(1) loaded
    by (auto simp: getAuthenticatedAuthClient_def refresh_branch_def Let_def needs_refresh_def
        truthy_num_def split: field.splits sum.splits option.splits)
qed

theorem C10_falsy_expiry_witness:
  "access_token zero_expiry_stored = Val ''AT0'' \<and>
   expiry_date zero_expiry_stored = Val 0 \<and>
   needs_refresh (- 5000000) zero_expiry_stored \<and>
   log_lines (trace (getAuthenticatedAuthClient ex_manager (ex_external (- 5000000)) zero_expiry_world))
     = [''[GoogleOfflineAccess] No token found, getting new one...''] \<and>
   refresh_calls (trace (getAuthenticatedAuthClient ex_manager (ex_external (- 5000000)) zero_expiry_world)) = 1 \<and>
   log_lines (trace (getAuthenticatedAuthClient ex_manager (ex_external 700001) ex_world))
     = [''[GoogleOfflineAccess] Token expired, renewing...'']"
proof -
  have a: "createAuthClient ex_manager zero_expiry_world = Inr ex_client"
    by (simp add: secret_to_client ex_manager_fields world_secrets)
  have b: "read_store ex_manager zero_expiry_world (seed_credentials ex_manager)
             = Inr zero_expiry_stored"
    by (simp add: read_store_def existsSync_def readFileSync_def ex_manager_fields world_stores seed_credentials_def
        zero_expiry_stored_def)
  from C10_falsy_expiry [OF a ex_manager_fields(5) world_stores(5), of "ex_external (- 5000000)"]
    C10_falsy_expiry [OF ex_createAuthClient ex_manager_fields(5) world_stores(1),
      of "ex_external 700001"] b
  show ?thesis
    by (simp add: zero_expiry_stored_def ex_stored_def truthy_num_def truthy_str_def
        ex_manager_fields default_log_def ex_external_def)
qed

end
